theory Spec2Isabelle
  imports Complex_Main
begin

section \<open>Values shared by the discovery and session models\<close>

text \<open>
  Timestamps are the values of Python's \<open>time.time()\<close>: seconds since the epoch. They are
  modelled as real numbers; rounding of the machine floats is outside the model.
\<close>

type_synonym timestamp = real

text \<open>
  The values \<open>json.loads\<close> can produce. A Python \<open>dict\<close> keeps its keys in insertion
  order, so an object is an association list; \<open>map_of\<close> is the lookup.
\<close>

datatype json =
    JNull
  | JBool bool
  | JInt int
  | JFloat real
  | JStr string
  | JArr "json list"
  | JObj "(string \<times> json) list"

type_synonym dict = "(string \<times> json) list"

text \<open>
  \<open>KeyError\<close>, \<open>TypeError\<close> and \<open>JSONDecodeError\<close> are the exceptions of the source.
  \<open>TypeMismatch f\<close> is not raised by the source: the dataclass below is typed as annotated,
  and a payload whose field \<open>f\<close> holds a value of another type (which Python would store
  unchecked) has no counterpart among the typed records. The model reports such a payload
  instead of inventing a record for it.
\<close>

datatype error =
    KeyError string
  | TypeError
  | JSONDecodeError
  | TypeMismatch string

definition ebind :: "error + 'a \<Rightarrow> ('a \<Rightarrow> error + 'b) \<Rightarrow> error + 'b" where
  "ebind m f = (case m of Inl e \<Rightarrow> Inl e | Inr x \<Rightarrow> f x)"

fun as_str :: "string \<Rightarrow> json \<Rightarrow> error + string" where
  "as_str f (JStr s) = Inr s"
| "as_str f _ = Inl (TypeMismatch f)"

fun as_int :: "string \<Rightarrow> json \<Rightarrow> error + int" where
  "as_int f (JInt i) = Inr i"
| "as_int f _ = Inl (TypeMismatch f)"

fun as_bool :: "string \<Rightarrow> json \<Rightarrow> error + bool" where
  "as_bool f (JBool b) = Inr b"
| "as_bool f _ = Inl (TypeMismatch f)"

fun as_opt_time :: "string \<Rightarrow> json \<Rightarrow> error + timestamp option" where
  "as_opt_time f JNull = Inr None"
| "as_opt_time f (JFloat t) = Inr (Some t)"
| "as_opt_time f (JInt i) = Inr (Some (of_int i))"
| "as_opt_time f _ = Inl (TypeMismatch f)"

text \<open>\<open>data[k]\<close> raises \<open>KeyError\<close> on a missing key; \<open>data.get(k, d)\<close> returns \<open>d\<close>.\<close>

definition getitem :: "dict \<Rightarrow> string \<Rightarrow> error + json" where
  "getitem data k = (case map_of data k of None \<Rightarrow> Inl (KeyError k) | Some v \<Rightarrow> Inr v)"

definition dict_get :: "dict \<Rightarrow> string \<Rightarrow> json \<Rightarrow> json" where
  "dict_get data k d = (case map_of data k of None \<Rightarrow> d | Some v \<Rightarrow> v)"

section \<open>models/server\_info.py\<close>

text \<open>
  The dataclass \<open>ServerInfo\<close>, with the field types of its annotations. HOL's equality on
  the record compares every field; the source's \<open>__eq__\<close> compares \<open>ip\<close> and \<open>port\<close>
  only and is not used by the functions modelled here.
\<close>

record ServerInfo =
  name :: string
  ip :: string
  port :: int
  users_count :: int
  is_password_protected :: bool
  description :: string
  version :: string
  max_users :: int
  is_online :: bool
  last_seen :: "timestamp option"

definition to_dict :: "ServerInfo \<Rightarrow> dict" where
  "to_dict s =
    [(''name'', JStr (name s)),
     (''ip'', JStr (ip s)),
     (''port'', JInt (port s)),
     (''users_count'', JInt (users_count s)),
     (''is_password_protected'', JBool (is_password_protected s)),
     (''description'', JStr (description s)),
     (''version'', JStr (version s)),
     (''max_users'', JInt (max_users s)),
     (''is_online'', JBool (is_online s)),
     (''last_seen'', (case last_seen s of None \<Rightarrow> JNull | Some t \<Rightarrow> JFloat t))]"

definition from_dict :: "dict \<Rightarrow> error + ServerInfo" where
  "from_dict data =
    ebind (ebind (getitem data ''name'') (as_str ''name'')) (\<lambda>v_name.
    ebind (ebind (getitem data ''ip'') (as_str ''ip'')) (\<lambda>v_ip.
    ebind (ebind (getitem data ''port'') (as_int ''port'')) (\<lambda>v_port.
    ebind (as_int ''users_count'' (dict_get data ''users_count'' (JInt 0))) (\<lambda>v_users.
    ebind (as_bool ''is_password_protected''
             (dict_get data ''is_password_protected'' (JBool False))) (\<lambda>v_pw.
    ebind (as_str ''description'' (dict_get data ''description'' (JStr ''''))) (\<lambda>v_descr.
    ebind (as_str ''version'' (dict_get data ''version'' (JStr ''1.0''))) (\<lambda>v_version.
    ebind (as_int ''max_users'' (dict_get data ''max_users'' (JInt 50))) (\<lambda>v_max.
    ebind (as_bool ''is_online'' (dict_get data ''is_online'' (JBool True))) (\<lambda>v_online.
    ebind (as_opt_time ''last_seen'' (dict_get data ''last_seen'' JNull)) (\<lambda>v_seen.
    Inr \<lparr>name = v_name, ip = v_ip, port = v_port, users_count = v_users,
         is_password_protected = v_pw, description = v_descr, version = v_version,
         max_users = v_max, is_online = v_online, last_seen = v_seen\<rparr>))))))))))"

text \<open>
  \<open>json.dumps\<close> and \<open>json.loads\<close> belong to Python's standard library, not to this
  repository: they are parameters. \<open>loads\<close> returns \<open>None\<close> where the library raises
  \<open>JSONDecodeError\<close>. A decoded value that is not an object makes \<open>data["name"]\<close> raise
  \<open>TypeError\<close>.
\<close>

definition to_json :: "(json \<Rightarrow> 't) \<Rightarrow> ServerInfo \<Rightarrow> 't" where
  "to_json dumps s = dumps (JObj (to_dict s))"

definition from_json :: "('t \<Rightarrow> json option) \<Rightarrow> 't \<Rightarrow> error + ServerInfo" where
  "from_json loads json_str =
    (case loads json_str of
       None \<Rightarrow> Inl JSONDecodeError
     | Some (JObj data) \<Rightarrow> from_dict data
     | Some _ \<Rightarrow> Inl TypeError)"

text \<open>Python's \<open>str\<close> of an integer, as the f-strings of the source apply it to a port.\<close>

fun nat_digits :: "nat \<Rightarrow> string" where
  "nat_digits n =
     (if n < 10 then [''0123456789'' ! n]
      else nat_digits (n div 10) @ [''0123456789'' ! (n mod 10)])"

definition str_int :: "int \<Rightarrow> string" where
  "str_int i = (if i < 0 then CHR ''-'' # nat_digits (nat (- i)) else nat_digits (nat i))"

definition address :: "ServerInfo \<Rightarrow> string" where
  "address s = ip s @ '':'' @ str_int (port s)"

section \<open>network/broadcast\_client.py\<close>

text \<open>
  The \<open>n\<close>-th call of \<open>time.time()\<close> returns \<open>clk n\<close>; every function that reads the
  clock takes the number of calls made so far and returns the number after it.
\<close>

type_synonym clock = "nat \<Rightarrow> timestamp"

record BroadcastClient =
  timeout :: real
  broadcast_port :: int

text \<open>
  \<open>_parse_server_response\<close>. \<open>loads data\<close> stands for \<open>json.loads(data.decode('utf-8'))\<close>
  and is \<open>None\<close> where that raises. Everything raised inside the function is caught and
  turned into the result \<open>None\<close>: a decoded value that is not an object has no \<open>get\<close>.
  \<open>now\<close> is the value of the call of \<open>time.time()\<close> in the constructor's arguments.
\<close>

definition parse_server_response ::
  "('b \<Rightarrow> json option) \<Rightarrow> timestamp \<Rightarrow> 'b \<Rightarrow> string \<times> int \<Rightarrow> error + ServerInfo option" where
  "parse_server_response loads now data addr =
    (case loads data of
       None \<Rightarrow> Inr None
     | Some (JObj response) \<Rightarrow>
         if dict_get response ''type'' JNull \<noteq> JStr ''server_response'' then Inr None
         else if map_of response ''name'' = None then Inr None
         else if map_of response ''port'' = None then Inr None
         else
           ebind (ebind (getitem response ''name'') (as_str ''name'')) (\<lambda>v_name.
           ebind (ebind (getitem response ''port'') (as_int ''port'')) (\<lambda>v_port.
           ebind (as_int ''users_count'' (dict_get response ''users_count'' (JInt 0))) (\<lambda>v_users.
           ebind (as_bool ''password_required''
                    (dict_get response ''password_required'' (JBool False))) (\<lambda>v_pw.
           ebind (as_str ''description'' (dict_get response ''description'' (JStr ''''))) (\<lambda>v_descr.
           ebind (as_str ''version'' (dict_get response ''version'' (JStr ''1.0''))) (\<lambda>v_version.
           ebind (as_int ''max_users'' (dict_get response ''max_users'' (JInt 50))) (\<lambda>v_max.
           Inr (Some \<lparr>name = v_name, ip = fst addr, port = v_port, users_count = v_users,
                      is_password_protected = v_pw, description = v_descr,
                      version = v_version, max_users = v_max, is_online = True,
                      last_seen = Some now\<rparr>))))))))
     | Some _ \<Rightarrow> Inr None)"

text \<open>
  What the socket does during one probe: whether creating and configuring it succeeds,
  whether \<open>sendto\<close> succeeds, and the outcomes of the successive \<open>recvfrom\<close> calls. When
  the listed outcomes are used up nothing more arrives, and \<open>recvfrom\<close> raises
  \<open>socket.timeout\<close>.
\<close>

datatype 'b recv =
    RecvTimeout
  | RecvError
  | Datagram 'b "string \<times> int"

record 'b network =
  socket_ok :: bool
  sendto_ok :: bool
  arrivals :: "'b recv list"

text \<open>
  The receive loop of \<open>discover_servers\<close>. \<open>bound\<close> tells whether the variable \<open>addr\<close>
  has been assigned: the handler of a \<open>recvfrom\<close> error formats \<open>addr\<close> into its log line,
  which raises \<open>NameError\<close> before the first datagram; the outer handler catches that and
  the function returns what it has. The result is the list and the number of clock reads.
\<close>

fun listen ::
  "('b \<Rightarrow> json option) \<Rightarrow> clock \<Rightarrow> real \<Rightarrow> timestamp \<Rightarrow> bool \<Rightarrow> nat \<Rightarrow> 'b recv list \<Rightarrow>
   ServerInfo list \<Rightarrow> error + (ServerInfo list \<times> nat)" where
  "listen loads clk tmo start bound n [] servers = Inr (servers, Suc n)"
| "listen loads clk tmo start bound n (ev # evs) servers =
    (if clk n - start < tmo then
       (case ev of
          RecvTimeout \<Rightarrow> Inr (servers, Suc n)
        | RecvError \<Rightarrow>
            if bound then listen loads clk tmo start bound (Suc n) evs servers
            else Inr (servers, Suc n)
        | Datagram data addr \<Rightarrow>
            (case parse_server_response loads (clk (Suc n)) data addr of
               Inl e \<Rightarrow> Inl e
             | Inr None \<Rightarrow> listen loads clk tmo start True (Suc n) evs servers
             | Inr (Some server_info) \<Rightarrow>
                 listen loads clk tmo start True (Suc (Suc n)) evs (servers @ [server_info])))
     else Inr (servers, Suc n))"

text \<open>
  \<open>discover_servers\<close>: the request carries one clock read, \<open>start_time\<close> is the next.
  A failure of the socket calls is caught by the outer handler, which returns the (empty)
  list.
\<close>

definition discover_servers ::
  "('b \<Rightarrow> json option) \<Rightarrow> BroadcastClient \<Rightarrow> clock \<Rightarrow> nat \<Rightarrow> 'b network \<Rightarrow>
   error + (ServerInfo list \<times> nat)" where
  "discover_servers loads c clk n net =
    (if \<not> socket_ok net then Inr ([], n)
     else if \<not> sendto_ok net then Inr ([], Suc n)
     else listen loads clk (timeout c) (clk (Suc n)) False (Suc (Suc n)) (arrivals net) [])"

section \<open>server\_discovery.py\<close>

record DiscoveryConfig =
  config_timeout :: real
  discovery_interval :: int
  max_cache_age :: int

definition default_config :: DiscoveryConfig where
  "default_config = \<lparr>config_timeout = 3, discovery_interval = 30, max_cache_age = 300\<rparr>"

text \<open>
  \<open>found_servers\<close> is a \<open>dict\<close> from the string \<open>ip:port\<close> to the descriptor, in insertion
  order. Assigning to a key that is present replaces the value where it stands; assigning
  to a new key appends.
\<close>

type_synonym registry = "(string \<times> ServerInfo) list"

fun dict_set :: "('k \<times> 'v) list \<Rightarrow> 'k \<Rightarrow> 'v \<Rightarrow> ('k \<times> 'v) list" where
  "dict_set [] k v = [(k, v)]"
| "dict_set ((k', v') # r) k v = (if k' = k then (k, v) # r else (k', v') # dict_set r k v)"

record ServerDiscovery =
  config :: DiscoveryConfig
  broadcast_client :: BroadcastClient
  found_servers :: registry
  last_discovery_time :: timestamp

definition server_key :: "ServerInfo \<Rightarrow> string" where
  "server_key server = ip server @ '':'' @ str_int (port server)"

text \<open>The body of the \<open>for\<close> loop of \<open>discover\<close>, for one descriptor of the probe.\<close>

definition merge_server :: "timestamp \<Rightarrow> ServerInfo \<Rightarrow> registry \<Rightarrow> registry" where
  "merge_server now server reg =
    (case map_of reg (server_key server) of
       Some known \<Rightarrow>
         dict_set reg (server_key server) (known\<lparr>last_seen := Some now, is_online := True\<rparr>)
     | None \<Rightarrow> dict_set reg (server_key server) (server\<lparr>last_seen := Some now\<rparr>))"

fun merge_servers :: "clock \<Rightarrow> nat \<Rightarrow> ServerInfo list \<Rightarrow> registry \<Rightarrow> registry \<times> nat" where
  "merge_servers clk n [] reg = (reg, n)"
| "merge_servers clk n (server # rest) reg =
     merge_servers clk (Suc n) rest (merge_server (clk n) server reg)"

text \<open>
  \<open>_mark_offline_servers\<close>. The test \<open>server.last_seen and ...\<close> is false for \<open>None\<close> and
  for the number zero.
\<close>

definition is_stale :: "timestamp \<Rightarrow> int \<Rightarrow> ServerInfo \<Rightarrow> bool" where
  "is_stale current_time offline_timeout server =
    (case last_seen server of
       None \<Rightarrow> False
     | Some t \<Rightarrow> t \<noteq> 0 \<and> current_time - t > of_int offline_timeout)"

definition mark_offline_servers :: "timestamp \<Rightarrow> int \<Rightarrow> registry \<Rightarrow> registry" where
  "mark_offline_servers current_time offline_timeout reg =
    map (\<lambda>(server_key, server).
          (server_key,
           if is_stale current_time offline_timeout server
           then server\<lparr>is_online := False\<rparr> else server)) reg"

text \<open>
  \<open>discover\<close>: probe, merge, sweep, stamp, and return the values of the whole dictionary.
  Nothing in the \<open>try\<close> block raises on typed descriptors, so its handler has no branch here.
\<close>

definition discover ::
  "('b \<Rightarrow> json option) \<Rightarrow> ServerDiscovery \<Rightarrow> clock \<Rightarrow> nat \<Rightarrow> 'b network \<Rightarrow>
   error + (ServerInfo list \<times> ServerDiscovery \<times> nat)" where
  "discover loads sd clk n net =
    (case discover_servers loads (broadcast_client sd) clk n net of
       Inl e \<Rightarrow> Inl e
     | Inr (found, n1) \<Rightarrow>
         (case merge_servers clk n1 found (found_servers sd) of
            (reg1, n2) \<Rightarrow>
              let reg2 = mark_offline_servers (clk n2) (max_cache_age (config sd)) reg1
              in Inr (map snd reg2,
                      sd\<lparr>found_servers := reg2, last_discovery_time := clk (Suc n2)\<rparr>,
                      Suc (Suc n2))))"

definition get_online_servers :: "ServerDiscovery \<Rightarrow> ServerInfo list" where
  "get_online_servers sd = filter is_online (map snd (found_servers sd))"


section \<open>network/websocket\_client.py\<close>

text \<open>
  The fields of \<open>MessengerWebSocket\<close> that the listener reads and writes. \<open>ws\<close> tells
  whether \<open>self.ws\<close> has been assigned a connection.
\<close>

record MessengerWebSocket =
  user_id :: int
  ws :: bool
  reconnect_attempts :: int
  max_reconnect_attempts :: int
  is_connected :: bool
  running :: bool

definition init :: "int \<Rightarrow> MessengerWebSocket" where
  "init uid = \<lparr>user_id = uid, ws = False, reconnect_attempts = 0,
               max_reconnect_attempts = 5, is_connected = False, running = True\<rparr>"

text \<open>What the transport does to the outside, in the order in which it does it.\<close>

datatype log_level = Info | Warning | Error

datatype effect =
    Log log_level
  | OpenConnection
  | ConnectionChanged bool
  | SendAuth
  | SendPing
  | Handled string
  | Sleep int
  | CloseRequested
  | PresenceOffline

text \<open>
  What the outside does to the transport. A connection attempt is refused, fails otherwise,
  or succeeds; a connection that succeeded comes with what happened to the authentication
  message and with the outcomes of the successive waits for a frame. \<open>ReadTimeout ok\<close> is
  the 25 second timeout, \<open>ok\<close> telling whether the send of \<open>ping\<close> then succeeds.
  \<open>disconnect()\<close> is called from another thread; \<open>UserDisconnect\<close> is such a call while
  the listener waits for a frame, \<open>Disconnect\<close> such a call before the listener tests its
  loop condition again.
\<close>

datatype auth_step = NoToken | AuthSent | AuthFailed

datatype recv_event =
    Message string
  | ReadTimeout bool
  | ConnectionClosed
  | ReceiveError
  | UserDisconnect

datatype conn_outcome =
    Refused
  | ConnectFailed
  | Connected auth_step "recv_event list"

datatype step = Attempt conn_outcome | Disconnect

datatype http_outcome = Status int | RequestFailed

definition disconnect :: "MessengerWebSocket \<Rightarrow> MessengerWebSocket \<times> effect list" where
  "disconnect st =
    (st\<lparr>running := False, is_connected := False\<rparr>,
     [Log Info, ConnectionChanged False] @ (if ws st then [CloseRequested] else []))"

definition handle_disconnection :: "MessengerWebSocket \<Rightarrow> MessengerWebSocket \<times> effect list" where
  "handle_disconnection st =
    (let st1 = st\<lparr>is_connected := False, reconnect_attempts := reconnect_attempts st + 1\<rparr>
     in if reconnect_attempts st1 < max_reconnect_attempts st1
        then (st1, [ConnectionChanged False, Log Info, Sleep (min (2 * reconnect_attempts st1) 10)])
        else (st1, [ConnectionChanged False, Log Error]))"

text \<open>\<open>_mark_user_offline\<close>: every outcome of the request ends in a log line.\<close>

fun mark_user_offline :: "http_outcome \<Rightarrow> effect list" where
  "mark_user_offline (Status code) =
     [PresenceOffline, (if code = 200 then Log Info else Log Warning)]"
| "mark_user_offline RequestFailed = [PresenceOffline, Log Error]"

definition prepend ::
  "effect list \<Rightarrow> (MessengerWebSocket \<times> effect list) option \<Rightarrow>
   (MessengerWebSocket \<times> effect list) option" where
  "prepend es r = map_option (\<lambda>(st, es'). (st, es @ es')) r"

text \<open>
  The inner \<open>while self.running\<close> loop. \<open>_handle_message\<close> catches what it raises and
  writes none of the fields above. The result is \<open>None\<close> when the listed outcomes are
  used up while the loop goes on: the connection is still open.
\<close>

fun receive_loop ::
  "MessengerWebSocket \<Rightarrow> recv_event list \<Rightarrow> (MessengerWebSocket \<times> effect list) option" where
  "receive_loop st [] = (if running st then None else Some (st, []))"
| "receive_loop st (ev # evs) =
    (if running st then
       (case ev of
          Message m \<Rightarrow> prepend [Handled m] (receive_loop st evs)
        | ReadTimeout ok \<Rightarrow>
            if ok then prepend [SendPing] (receive_loop st evs)
            else Some (st, [SendPing, Log Warning])
        | ConnectionClosed \<Rightarrow> Some (st, [Log Warning])
        | ReceiveError \<Rightarrow> Some (st, [Log Error])
        | UserDisconnect \<Rightarrow>
            (case disconnect st of (st', es) \<Rightarrow> prepend es (receive_loop st' evs)))
     else Some (st, []))"

fun auth_effects :: "auth_step \<Rightarrow> effect list" where
  "auth_effects NoToken = []"
| "auth_effects AuthSent = [SendAuth]"
| "auth_effects AuthFailed = [Log Warning]"

text \<open>
  One pass through the body of the outer loop. Only an exception of \<open>websockets.connect\<close>
  reaches the two handlers that call \<open>_handle_disconnection\<close>: the inner loop leaves by
  \<open>break\<close>, and the \<open>async with\<close> block then ends normally.
\<close>

fun attempt ::
  "MessengerWebSocket \<Rightarrow> conn_outcome \<Rightarrow> (MessengerWebSocket \<times> effect list) option" where
  "attempt st Refused =
     (case handle_disconnection st of
        (st', es) \<Rightarrow> Some (st', [Log Info, OpenConnection, Log Error] @ es))"
| "attempt st ConnectFailed =
     (case handle_disconnection st of
        (st', es) \<Rightarrow> Some (st', [Log Info, OpenConnection, Log Error] @ es))"
| "attempt st (Connected a evs) =
     prepend ([Log Info, OpenConnection, ConnectionChanged True, Log Info] @ auth_effects a)
       (receive_loop (st\<lparr>ws := True, is_connected := True, reconnect_attempts := 0\<rparr>) evs)"

definition prepend3 ::
  "effect list \<Rightarrow> (MessengerWebSocket \<times> effect list \<times> step list) option \<Rightarrow>
   (MessengerWebSocket \<times> effect list \<times> step list) option" where
  "prepend3 es r = map_option (\<lambda>(st, es', rest). (st, es @ es', rest)) r"

text \<open>
  The outer loop of \<open>_websocket_listener\<close>. It returns the final fields, the effects and
  the part of the script it has not consumed; \<open>None\<close> when the script is used up while
  the loop goes on.
\<close>

fun listener_loop ::
  "MessengerWebSocket \<Rightarrow> step list \<Rightarrow> (MessengerWebSocket \<times> effect list \<times> step list) option" where
  "listener_loop st [] =
    (if running st \<and> reconnect_attempts st < max_reconnect_attempts st then None
     else Some (st, [], []))"
| "listener_loop st (x # xs) =
    (if running st \<and> reconnect_attempts st < max_reconnect_attempts st then
       (case x of
          Disconnect \<Rightarrow> (case disconnect st of (st', es) \<Rightarrow> prepend3 es (listener_loop st' xs))
        | Attempt a \<Rightarrow>
            (case attempt st a of
               None \<Rightarrow> None
             | Some (st', es) \<Rightarrow> prepend3 es (listener_loop st' xs)))
     else Some (st, [], x # xs))"

definition websocket_listener ::
  "MessengerWebSocket \<Rightarrow> step list \<Rightarrow> http_outcome \<Rightarrow>
   (MessengerWebSocket \<times> effect list \<times> step list) option" where
  "websocket_listener st script http =
    (case listener_loop st script of
       None \<Rightarrow> None
     | Some (st', es, rest) \<Rightarrow>
         Some (st', es @ (if running st' then Log Info # mark_user_offline http else []), rest))"

definition sleeps :: "effect list \<Rightarrow> int list" where
  "sleeps es = concat (map (\<lambda>e. case e of Sleep d \<Rightarrow> [d] | _ \<Rightarrow> []) es)"

section \<open>Example values\<close>

definition alpha_old :: ServerInfo where
  "alpha_old = \<lparr>name = ''Alpha'', ip = ''10.0.0.2'', port = 8001, users_count = 1,
     is_password_protected = False, description = ''old'', version = ''1.0'',
     max_users = 50, is_online = False, last_seen = Some 100\<rparr>"



definition example_discovery :: "registry \<Rightarrow> ServerDiscovery" where
  "example_discovery reg =
     \<lparr>config = default_config, broadcast_client = \<lparr>timeout = 3, broadcast_port = 37020\<rparr>,
      found_servers = reg, last_discovery_time = 0\<rparr>"

text \<open>A stand-in for the JSON library on four datagrams; everything else fails to decode.\<close>

definition example_loads :: "string \<Rightarrow> json option" where
  "example_loads d =
    (if d = ''alpha'' then
       Some (JObj [(''type'', JStr ''server_response''), (''name'', JStr ''Alpha''),
                   (''port'', JInt 8001), (''ip'', JStr ''6.6.6.6''), (''users_count'', JInt 3)])
     else if d = ''noport'' then
       Some (JObj [(''type'', JStr ''server_response''), (''name'', JStr ''Gamma'')])
     else if d = ''request'' then Some (JObj [(''type'', JStr ''discovery'')])
     else if d = ''list'' then Some (JArr [])
     else None)"

definition example_clock :: clock where
  "example_clock n = 1000 + real n"

text \<open>The descriptor built from the datagram \<open>alpha\<close> sent by \<open>sender\<close> at time \<open>t\<close>.\<close>

definition alpha_at :: "string \<Rightarrow> timestamp \<Rightarrow> ServerInfo" where
  "alpha_at sender t = \<lparr>name = ''Alpha'', ip = sender, port = 8001, users_count = 3,
          is_password_protected = False, description = [],
          version = ''1.0'', max_users = 50, is_online = True,
          last_seen = Some t\<rparr>"

section \<open>Properties of the descriptor and of the registry\<close>

declare nat_digits.simps [simp del]

lemma from_dict_to_dict: "from_dict (to_dict s) = Inr s"
  by (cases s)
    (simp add: from_dict_def to_dict_def ebind_def getitem_def dict_get_def split: option.splits)

text \<open>
  C9. A descriptor turned into a dictionary and read back is the same descriptor, field by
  field; and so is one serialised with \<open>to_json\<close> and read with \<open>from_json\<close>, whenever
  the JSON library reads back the dictionary it wrote.
\<close>

theorem server_info_roundtrip:
  "from_dict (to_dict s) = Inr s \<and>
   (loads (dumps (JObj (to_dict s))) = Some (JObj (to_dict s)) \<longrightarrow>
      from_json loads (to_json dumps s) = Inr s)"
  by (simp add: from_dict_to_dict from_json_def to_json_def)

theorem server_info_roundtrip_witness:
  "Some ((\<lambda>j. j) (JObj (to_dict alpha_old))) = Some (JObj (to_dict alpha_old)) \<and>
   from_dict (to_dict alpha_old) = Inr alpha_old \<and>
   from_json Some (to_json (\<lambda>j. j) alpha_old) = Inr alpha_old"
  using server_info_roundtrip [of alpha_old Some "\<lambda>j. j"] by simp







lemma map_fst_mark_offline: "map fst (mark_offline_servers now age reg) = map fst reg"
  by (induction reg) (auto simp: mark_offline_servers_def)





section \<open>Properties of the probe\<close>

lemma getitem_Some: "map_of d k = Some v \<Longrightarrow> getitem d k = Inr v"
  by (simp add: getitem_def)

lemma dict_get_Some: "map_of d k = Some v \<Longrightarrow> dict_get d k dflt = v"
  by (simp add: dict_get_def)

text \<open>
  C7. For every well-formed response datagram (an object tagged \<open>server_response\<close> with a
  name, a port and, where present, optional fields of the annotated types), the descriptor
  takes \<open>ip\<close> from the sender's address, whatever the payload holds, \<open>last_seen\<close> from
  the clock and \<open>is_online\<close> true.
\<close>

theorem parse_uses_sender_address:
  assumes "loads data = Some (JObj response)"
    and "map_of response ''type'' = Some (JStr ''server_response'')"
    and "map_of response ''name'' = Some (JStr nm)"
    and "map_of response ''port'' = Some (JInt p)"
    and "as_int ''users_count'' (dict_get response ''users_count'' (JInt 0)) = Inr uc"
    and "as_bool ''password_required''
           (dict_get response ''password_required'' (JBool False)) = Inr pw"
    and "as_str ''description'' (dict_get response ''description'' (JStr '''')) = Inr d"
    and "as_str ''version'' (dict_get response ''version'' (JStr ''1.0'')) = Inr v"
    and "as_int ''max_users'' (dict_get response ''max_users'' (JInt 50)) = Inr mu"
  shows "parse_server_response loads now data addr =
           Inr (Some \<lparr>name = nm, ip = fst addr, port = p, users_count = uc,
                      is_password_protected = pw, description = d, version = v,
                      max_users = mu, is_online = True, last_seen = Some now\<rparr>)"
  using assms
  by (simp add: parse_server_response_def getitem_Some dict_get_Some ebind_def)

theorem parse_uses_sender_address_witness:
  "parse_server_response example_loads 42 ''alpha'' (''10.0.0.2'', 37020) =
     Inr (Some \<lparr>name = ''Alpha'', ip = ''10.0.0.2'', port = 8001, users_count = 3,
                is_password_protected = False, description = '''', version = ''1.0'',
                max_users = 50, is_online = True, last_seen = Some 42\<rparr>)"
  using parse_uses_sender_address [of example_loads "''alpha''"
          "[(''type'', JStr ''server_response''), (''name'', JStr ''Alpha''),
            (''port'', JInt 8001), (''ip'', JStr ''6.6.6.6''), (''users_count'', JInt 3)]"
          "''Alpha''" 8001 3 False "''''" "''1.0''" 50 42 "(''10.0.0.2'', 37020)"]
  by (simp add: example_loads_def dict_get_def)




section \<open>Properties of a discovery round\<close>

lemma length_dict_set: "length reg \<le> length (dict_set reg k v)"
  by (induction reg) auto

lemma dict_set_nth:
  "i < length reg \<Longrightarrow> fst (reg ! i) \<noteq> k \<Longrightarrow> dict_set reg k v ! i = reg ! i"
proof (induction reg arbitrary: i)
  case Nil
  then show ?case by simp
next
  case (Cons e reg)
  then show ?case by (cases e; cases i) auto
qed

lemma dict_set_keys: "take (length reg) (map fst (dict_set reg k v)) = map fst reg"
  by (induction reg) auto

lemma length_merge_server: "length reg \<le> length (merge_server now s reg)"
  by (simp add: merge_server_def length_dict_set split: option.splits)

lemma merge_server_nth:
  "i < length reg \<Longrightarrow> fst (reg ! i) \<noteq> server_key s \<Longrightarrow> merge_server now s reg ! i = reg ! i"
  by (simp add: merge_server_def dict_set_nth split: option.splits)

lemma merge_server_keys: "take (length reg) (map fst (merge_server now s reg)) = map fst reg"
  by (simp add: merge_server_def dict_set_keys split: option.splits)

lemma length_merge_servers: "length reg \<le> length (fst (merge_servers clk n found reg))"
proof (induction found arbitrary: n reg)
  case Nil
  then show ?case by simp
next
  case (Cons s found)
  have "length reg \<le> length (merge_server (clk n) s reg)"
    by (rule length_merge_server)
  also have "\<dots> \<le> length (fst (merge_servers clk (Suc n) found (merge_server (clk n) s reg)))"
    by (rule Cons.IH)
  finally show ?case by simp
qed

lemma merge_servers_nth:
  "i < length reg \<Longrightarrow> fst (reg ! i) \<notin> server_key ` set found \<Longrightarrow>
   fst (merge_servers clk n found reg) ! i = reg ! i"
proof (induction found arbitrary: n reg)
  case Nil
  then show ?case by simp
next
  case (Cons s found)
  let ?reg = "merge_server (clk n) s reg"
  from Cons.prems have ne: "fst (reg ! i) \<noteq> server_key s" by auto
  with Cons.prems have same: "?reg ! i = reg ! i" by (simp add: merge_server_nth)
  have len: "i < length ?reg"
    using Cons.prems(1) length_merge_server [of reg "clk n" s] by simp
  from Cons.prems same have "fst (?reg ! i) \<notin> server_key ` set found" by auto
  with len have "fst (merge_servers clk (Suc n) found ?reg) ! i = ?reg ! i"
    by (rule Cons.IH)
  with same show ?case by simp
qed

lemma merge_servers_keys:
  "take (length reg) (map fst (fst (merge_servers clk n found reg))) = map fst reg"
proof (induction found arbitrary: n reg)
  case Nil
  then show ?case by simp
next
  case (Cons s found)
  let ?reg = "merge_server (clk n) s reg"
  have le: "length reg \<le> length ?reg" by (rule length_merge_server)
  have "take (length reg) (map fst (fst (merge_servers clk (Suc n) found ?reg)))
      = take (length reg) (take (length ?reg) (map fst (fst (merge_servers clk (Suc n) found ?reg))))"
    using le by (simp add: min_def)
  also have "\<dots> = take (length reg) (map fst ?reg)"
    by (simp only: Cons.IH)
  also have "\<dots> = map fst reg" by (rule merge_server_keys)
  finally show ?case by simp
qed

lemma mark_offline_nth:
  "i < length reg \<Longrightarrow>
   mark_offline_servers now age reg ! i =
     (fst (reg ! i),
      if is_stale now age (snd (reg ! i)) then (snd (reg ! i))\<lparr>is_online := False\<rparr>
      else snd (reg ! i))"
  by (simp add: mark_offline_servers_def split: prod.splits)

lemma offline_idem: "\<not> is_online s \<Longrightarrow> s\<lparr>is_online := False\<rparr> = s"
  by (cases s) simp

text \<open>
  C10. What \<open>discover\<close> returns is the list of values of the whole registry after the
  round, not the list of this round's answers: every key known before is still there, in
  its place, and an entry that did not answer this round is returned as it was, or marked
  offline by the sweep; one that was offline already is returned unchanged.
\<close>

theorem discover_returns_whole_registry:
  assumes run: "discover loads sd clk n net = Inr (result, sd', n')"
    and probe: "discover_servers loads (broadcast_client sd) clk n net = Inr (found, n1)"
  shows "result = map snd (found_servers sd') \<and>
    length (found_servers sd) \<le> length result \<and>
    take (length (found_servers sd)) (map fst (found_servers sd')) = map fst (found_servers sd) \<and>
    (\<forall>i < length (found_servers sd).
       fst (found_servers sd ! i) \<notin> server_key ` set found \<longrightarrow>
         (result ! i = snd (found_servers sd ! i) \<or>
          result ! i = (snd (found_servers sd ! i))\<lparr>is_online := False\<rparr>) \<and>
         (\<not> is_online (snd (found_servers sd ! i)) \<longrightarrow> result ! i = snd (found_servers sd ! i)))"
proof -
  obtain reg1 n2 where merged: "merge_servers clk n1 found (found_servers sd) = (reg1, n2)"
    by (cases "merge_servers clk n1 found (found_servers sd)")
  define reg2 where "reg2 = mark_offline_servers (clk n2) (max_cache_age (config sd)) reg1"
  from run probe merged have res: "result = map snd reg2"
    and sd': "found_servers sd' = reg2"
    by (auto simp: discover_def reg2_def Let_def)
  have reg1: "reg1 = fst (merge_servers clk n1 found (found_servers sd))"
    by (simp add: merged)
  have len1: "length (found_servers sd) \<le> length reg1"
    unfolding reg1 by (rule length_merge_servers)
  have len2: "length reg2 = length reg1"
    by (simp add: reg2_def mark_offline_servers_def)
  have keys2: "map fst reg2 = map fst reg1"
    by (simp add: reg2_def map_fst_mark_offline)
  have keys: "take (length (found_servers sd)) (map fst reg2) = map fst (found_servers sd)"
    unfolding keys2 reg1 by (rule merge_servers_keys)
  have entries: "result ! i = snd (found_servers sd ! i) \<or>
          result ! i = (snd (found_servers sd ! i))\<lparr>is_online := False\<rparr>"
    and offline: "\<not> is_online (snd (found_servers sd ! i)) \<Longrightarrow>
          result ! i = snd (found_servers sd ! i)"
    if i: "i < length (found_servers sd)"
      and quiet: "fst (found_servers sd ! i) \<notin> server_key ` set found" for i
  proof -
    from i quiet have same: "reg1 ! i = found_servers sd ! i"
      unfolding reg1 by (rule merge_servers_nth)
    from i len1 have i1: "i < length reg1" by simp
    then have "result ! i =
       (if is_stale (clk n2) (max_cache_age (config sd)) (snd (reg1 ! i))
        then (snd (reg1 ! i))\<lparr>is_online := False\<rparr> else snd (reg1 ! i))"
      by (simp add: res reg2_def mark_offline_nth len2 [unfolded reg2_def])
    with same have r: "result ! i =
       (if is_stale (clk n2) (max_cache_age (config sd)) (snd (found_servers sd ! i))
        then (snd (found_servers sd ! i))\<lparr>is_online := False\<rparr> else snd (found_servers sd ! i))"
      by simp
    then show "result ! i = snd (found_servers sd ! i) \<or>
          result ! i = (snd (found_servers sd ! i))\<lparr>is_online := False\<rparr>"
      by (simp split: if_splits)
    show "result ! i = snd (found_servers sd ! i)"
      if "\<not> is_online (snd (found_servers sd ! i))"
      using r that by (simp add: offline_idem)
  qed
  from res sd' len1 len2 keys entries offline show ?thesis
    by simp
qed

theorem discover_returns_whole_registry_witness:
  "discover example_loads (example_discovery [(''10.0.0.2:8001'', alpha_old)]) example_clock 0
      \<lparr>socket_ok = True, sendto_ok = True, arrivals = [Datagram ''alpha'' (''10.0.0.7'', 37020)]\<rparr>
    = Inr ([alpha_old, alpha_at ''10.0.0.7'' 1005],
           (example_discovery [(''10.0.0.2:8001'', alpha_old)])
             \<lparr>found_servers := [(''10.0.0.2:8001'', alpha_old),
                                 (''10.0.0.7:8001'', alpha_at ''10.0.0.7'' 1005)],
              last_discovery_time := 1007\<rparr>, 8) \<and>
   discover_servers example_loads
      (broadcast_client (example_discovery [(''10.0.0.2:8001'', alpha_old)])) example_clock 0
      \<lparr>socket_ok = True, sendto_ok = True, arrivals = [Datagram ''alpha'' (''10.0.0.7'', 37020)]\<rparr>
    = Inr ([alpha_at ''10.0.0.7'' 1003], 5) \<and>
   (0::nat) < length (found_servers (example_discovery [(''10.0.0.2:8001'', alpha_old)])) \<and>
   fst (found_servers (example_discovery [(''10.0.0.2:8001'', alpha_old)]) ! 0)
     \<notin> server_key ` set [alpha_at ''10.0.0.7'' 1003] \<and>
   \<not> is_online (snd (found_servers (example_discovery [(''10.0.0.2:8001'', alpha_old)]) ! 0)) \<and>
   [alpha_old, alpha_at ''10.0.0.7'' 1005] ! 0 = alpha_old"
proof -
  let ?sd = "example_discovery [(''10.0.0.2:8001'', alpha_old)]"
  let ?net = "\<lparr>socket_ok = True, sendto_ok = True,
                arrivals = [Datagram ''alpha'' (''10.0.0.7'', 37020)]\<rparr>"
  have parse: "parse_server_response example_loads t ''alpha'' (''10.0.0.7'', 37020)
                 = Inr (Some (alpha_at ''10.0.0.7'' t))" for t
    by (simp add: parse_server_response_def example_loads_def dict_get_def getitem_def
          ebind_def alpha_at_def)
  have bc: "timeout (broadcast_client ?sd) = 3"
    by (simp add: example_discovery_def)
  have probe: "discover_servers example_loads (broadcast_client ?sd) example_clock 0 ?net
                 = Inr ([alpha_at ''10.0.0.7'' 1003], 5)"
    by (simp add: discover_servers_def bc example_clock_def parse)
  have reg: "found_servers ?sd = [(''10.0.0.2:8001'', alpha_old)]"
    by (simp add: example_discovery_def)
  have cfg: "max_cache_age (config ?sd) = 300"
    by (simp add: example_discovery_def default_config_def)
  have key: "server_key (alpha_at ''10.0.0.7'' t) = ''10.0.0.7:8001''" for t
    by (simp add: server_key_def alpha_at_def str_int_def nat_digits.simps)
  have off: "\<not> is_online alpha_old" and seen: "last_seen alpha_old = Some 100"
    by (simp_all add: alpha_old_def)
  have upd: "(alpha_at ''10.0.0.7'' 1003)\<lparr>last_seen := Some 1005\<rparr> = alpha_at ''10.0.0.7'' 1005"
    by (simp add: alpha_at_def)
  have fresh: "\<not> is_stale 1006 300 (alpha_at ''10.0.0.7'' 1005)"
    by (simp add: is_stale_def alpha_at_def)
  have run: "discover example_loads ?sd example_clock 0 ?net
    = Inr ([alpha_old, alpha_at ''10.0.0.7'' 1005],
           ?sd\<lparr>found_servers := [(''10.0.0.2:8001'', alpha_old),
                                 (''10.0.0.7:8001'', alpha_at ''10.0.0.7'' 1005)],
              last_discovery_time := 1007\<rparr>, 8)"
    by (simp add: discover_def probe merge_server_def key reg cfg mark_offline_servers_def
          example_clock_def upd fresh offline_idem [OF off])
  show ?thesis
    using discover_returns_whole_registry [OF run probe] run probe
    by (simp add: reg key off)
qed

section \<open>Properties of the session transport\<close>

lemma loop_done:
  "\<not> (running st \<and> reconnect_attempts st < max_reconnect_attempts st) \<Longrightarrow>
   listener_loop st script = Some (st, [], script)"
  by (cases script) auto

lemma handle_disconnection_fields:
  "running (fst (handle_disconnection st)) = running st"
  "max_reconnect_attempts (fst (handle_disconnection st)) = max_reconnect_attempts st"
  "reconnect_attempts (fst (handle_disconnection st)) = reconnect_attempts st + 1"
  "\<not> is_connected (fst (handle_disconnection st))"
  by (simp_all add: handle_disconnection_def Let_def)

lemma handle_disconnection_effects:
  "count_list (snd (handle_disconnection st)) OpenConnection = 0"
  "PresenceOffline \<notin> set (snd (handle_disconnection st))"
  by (simp_all add: handle_disconnection_def Let_def)

lemma attempt_failed:
  "a = Refused \<or> a = ConnectFailed \<Longrightarrow>
   attempt st a = Some (fst (handle_disconnection st),
                        [Log Info, OpenConnection, Log Error] @ snd (handle_disconnection st))"
  by (auto split: prod.splits)

lemma loop_failures:
  "running st \<Longrightarrow> reconnect_attempts st \<le> max_reconnect_attempts st \<Longrightarrow>
   set fails \<subseteq> {Refused, ConnectFailed} \<Longrightarrow>
   length fails = nat (max_reconnect_attempts st - reconnect_attempts st) \<Longrightarrow>
   \<exists>st' es. listener_loop st (map Attempt fails @ rest) = Some (st', es, rest) \<and>
     running st' \<and> reconnect_attempts st' = max_reconnect_attempts st \<and>
     max_reconnect_attempts st' = max_reconnect_attempts st \<and>
     (fails \<noteq> [] \<longrightarrow> \<not> is_connected st') \<and>
     count_list es OpenConnection = length fails"
proof (induction fails arbitrary: st)
  case Nil
  then have "\<not> (running st \<and> reconnect_attempts st < max_reconnect_attempts st)" by simp
  then have "listener_loop st rest = Some (st, [], rest)" by (rule loop_done)
  with Nil show ?case by simp
next
  case (Cons f fails)
  let ?st1 = "fst (handle_disconnection st)"
  let ?es1 = "[Log Info, OpenConnection, Log Error] @ snd (handle_disconnection st)"
  from Cons.prems have go: "running st \<and> reconnect_attempts st < max_reconnect_attempts st"
    by auto
  from Cons.prems have f: "f = Refused \<or> f = ConnectFailed" by auto
  then have att: "attempt st f = Some (?st1, ?es1)" by (rule attempt_failed)
  have "\<exists>st' es. listener_loop ?st1 (map Attempt fails @ rest) = Some (st', es, rest) \<and>
     running st' \<and> reconnect_attempts st' = max_reconnect_attempts ?st1 \<and>
     max_reconnect_attempts st' = max_reconnect_attempts ?st1 \<and>
     (fails \<noteq> [] \<longrightarrow> \<not> is_connected st') \<and>
     count_list es OpenConnection = length fails"
  proof (rule Cons.IH)
    show "running ?st1" using go by (simp add: handle_disconnection_fields)
    show "reconnect_attempts ?st1 \<le> max_reconnect_attempts ?st1"
      using go by (simp add: handle_disconnection_fields)
    show "set fails \<subseteq> {Refused, ConnectFailed}" using Cons.prems by auto
    show "length fails = nat (max_reconnect_attempts ?st1 - reconnect_attempts ?st1)"
      using Cons.prems(4) go by (simp add: handle_disconnection_fields)
  qed
  then obtain st' es where
    rest: "listener_loop ?st1 (map Attempt fails @ rest) = Some (st', es, rest)"
    and fin: "running st'" "reconnect_attempts st' = max_reconnect_attempts st"
      "max_reconnect_attempts st' = max_reconnect_attempts st"
      "count_list es OpenConnection = length fails"
    and conn: "fails \<noteq> [] \<longrightarrow> \<not> is_connected st'"
    by (auto simp: handle_disconnection_fields)
  have last: "\<not> is_connected st'"
  proof (cases fails)
    case Nil
    have "\<not> (running ?st1 \<and> reconnect_attempts ?st1 < max_reconnect_attempts ?st1)"
    proof -
      from Cons.prems(4) Nil
      have "max_reconnect_attempts st - reconnect_attempts st = 1" by simp
      then show ?thesis by (simp add: handle_disconnection_fields)
    qed
    then have "listener_loop ?st1 rest = Some (?st1, [], rest)" by (rule loop_done)
    with rest Nil have "st' = ?st1" by simp
    then show ?thesis by (simp add: handle_disconnection_fields)
  next
    case (Cons a list)
    with conn show ?thesis by simp
  qed
  have "listener_loop st (map Attempt (f # fails) @ rest) = Some (st', ?es1 @ es, rest)"
    using go att rest by (simp add: prepend3_def)
  moreover have "count_list (?es1 @ es) OpenConnection = length (f # fails)"
    using fin by (simp add: handle_disconnection_effects)
  ultimately show ?case using fin last by auto
qed

text \<open>
  C3. When, from a running listener whose counter is zero, as many connection attempts in a
  row fail as \<open>max_reconnect_attempts\<close> allows (five by default), the listener returns:
  the counter has reached the maximum, the transport is not connected, exactly that many
  connections were opened, the rest of the script is left unconsumed, and from the state
  reached the loop opens no connection whatever the outside offers.
\<close>

theorem listener_stops_after_max_failures:
  assumes "running st" and "reconnect_attempts st = 0"
    and "set fails \<subseteq> {Refused, ConnectFailed}"
    and "int (length fails) = max_reconnect_attempts st"
  shows "\<exists>st' es. websocket_listener st (map Attempt fails @ rest) http = Some (st', es, rest) \<and>
     reconnect_attempts st' = max_reconnect_attempts st \<and>
     max_reconnect_attempts st' = max_reconnect_attempts st \<and>
     (fails \<noteq> [] \<longrightarrow> \<not> is_connected st') \<and>
     count_list es OpenConnection = length fails \<and>
     (\<forall>script. listener_loop st' script = Some (st', [], script))"
proof -
  have "\<exists>st' es. listener_loop st (map Attempt fails @ rest) = Some (st', es, rest) \<and>
     running st' \<and> reconnect_attempts st' = max_reconnect_attempts st \<and>
     max_reconnect_attempts st' = max_reconnect_attempts st \<and>
     (fails \<noteq> [] \<longrightarrow> \<not> is_connected st') \<and>
     count_list es OpenConnection = length fails"
    using assms by (intro loop_failures) auto
  then obtain st' es where
    loop: "listener_loop st (map Attempt fails @ rest) = Some (st', es, rest)"
    and fin: "running st'" "reconnect_attempts st' = max_reconnect_attempts st"
      "max_reconnect_attempts st' = max_reconnect_attempts st"
      "fails \<noteq> [] \<longrightarrow> \<not> is_connected st'"
      "count_list es OpenConnection = length fails"
    by blast
  have stop: "listener_loop st' script = Some (st', [], script)" for script
    using fin by (intro loop_done) simp
  have offline: "count_list (Log Info # mark_user_offline http) OpenConnection = 0"
    by (cases http) simp_all
  have "websocket_listener st (map Attempt fails @ rest) http
          = Some (st', es @ Log Info # mark_user_offline http, rest)"
    using loop fin by (simp add: websocket_listener_def)
  moreover have "count_list (es @ Log Info # mark_user_offline http) OpenConnection = length fails"
    using fin offline by simp
  ultimately show ?thesis using fin stop by blast
qed


theorem listener_stops_after_max_failures_witness:
  "running (init 7) \<and> reconnect_attempts (init 7) = 0 \<and>
   set [Refused, ConnectFailed, Refused, Refused, ConnectFailed] \<subseteq> {Refused, ConnectFailed} \<and>
   int (length [Refused, ConnectFailed, Refused, Refused, ConnectFailed])
     = max_reconnect_attempts (init 7) \<and>
   (\<exists>st' es. websocket_listener (init 7)
        (map Attempt [Refused, ConnectFailed, Refused, Refused, ConnectFailed]
           @ [Attempt (Connected AuthSent [])]) RequestFailed
        = Some (st', es, [Attempt (Connected AuthSent [])]) \<and>
      reconnect_attempts st' = 5 \<and>
      count_list es OpenConnection
        = length [Refused, ConnectFailed, Refused, Refused, ConnectFailed])"
proof -
  have h1: "running (init 7)" and h2: "reconnect_attempts (init 7) = 0"
    and m: "max_reconnect_attempts (init 7) = 5"
    by (simp_all add: init_def)
  have h3: "set [Refused, ConnectFailed, Refused, Refused, ConnectFailed]
              \<subseteq> {Refused, ConnectFailed}"
    by simp
  have h4: "int (length [Refused, ConnectFailed, Refused, Refused, ConnectFailed])
              = max_reconnect_attempts (init 7)"
    by (simp add: m)
  show ?thesis
    using listener_stops_after_max_failures
            [OF h1 h2 h3 h4, of "[Attempt (Connected AuthSent [])]" RequestFailed] h1 h2 m
    by simp blast
qed

text \<open>
  C4. The source at the input of the claim: a fresh transport connects, the read times
  out, the send of \<open>ping\<close> fails. The pass through the loop body ends with the counter
  at zero (set on connect), \<open>is_connected\<close> still true and no backoff sleep:
  \<open>_handle_disconnection\<close> is not run on this path.
\<close>

theorem ping_failure_keeps_counter_zero:
  "attempt (init uid) (Connected a [ReadTimeout False]) =
     Some ((init uid)\<lparr>ws := True, is_connected := True, reconnect_attempts := 0\<rparr>,
           [Log Info, OpenConnection, ConnectionChanged True, Log Info] @ auth_effects a @
           [SendPing, Log Warning]) \<and>
   reconnect_attempts ((init uid)\<lparr>ws := True, is_connected := True, reconnect_attempts := 0\<rparr>) \<noteq> 1 \<and>
   sleeps ([Log Info, OpenConnection, ConnectionChanged True, Log Info] @ auth_effects a @
           [SendPing, Log Warning]) = []"
  by (cases a) (simp_all add: init_def prepend_def sleeps_def)

text \<open>
  C5. When a failure brings the counter to \<open>N\<close> with \<open>1 \<le> N < max_reconnect_attempts\<close>,
  the transport sleeps \<open>min (2 * N) 10\<close> seconds before the next attempt, and a later
  attempt number never sleeps less.
\<close>

theorem backoff_delay_linear_capped:
  assumes "1 \<le> N" and "N < max_reconnect_attempts st" and "reconnect_attempts st = N - 1"
  shows "reconnect_attempts (fst (handle_disconnection st)) = N \<and>
     sleeps (snd (handle_disconnection st)) = [min (2 * N) 10] \<and>
     (\<forall>st2 M. N \<le> M \<and> M < max_reconnect_attempts st2 \<and> reconnect_attempts st2 = M - 1 \<longrightarrow>
        sleeps (snd (handle_disconnection st2)) = [min (2 * M) 10] \<and>
        min (2 * N) 10 \<le> min (2 * M) 10)"
  using assms by (auto simp: handle_disconnection_def Let_def sleeps_def)

theorem backoff_delay_linear_capped_witness:
  "(1::int) \<le> 3 \<and> 3 < max_reconnect_attempts ((init 7)\<lparr>reconnect_attempts := 2\<rparr>) \<and>
   reconnect_attempts ((init 7)\<lparr>reconnect_attempts := 2\<rparr>) = 3 - 1 \<and>
   sleeps (snd (handle_disconnection ((init 7)\<lparr>reconnect_attempts := 2\<rparr>))) = [6] \<and>
   sleeps (snd (handle_disconnection ((init 7)\<lparr>reconnect_attempts := 3\<rparr>))) = [8] \<and>
   sleeps (snd (handle_disconnection
      ((init 7)\<lparr>reconnect_attempts := 6, max_reconnect_attempts := 9\<rparr>))) = [10]"
  using backoff_delay_linear_capped [of 3 "(init 7)\<lparr>reconnect_attempts := 2\<rparr>"]
        backoff_delay_linear_capped
          [of 7 "(init 7)\<lparr>reconnect_attempts := 6, max_reconnect_attempts := 9\<rparr>"]
  by (simp add: init_def handle_disconnection_def sleeps_def)

lemma disconnect_effects: "PresenceOffline \<notin> set (snd (disconnect st))"
  by (simp add: disconnect_def)

lemma receive_loop_no_presence:
  "receive_loop st evs = Some (st', es) \<Longrightarrow> PresenceOffline \<notin> set es"
proof (induction evs arbitrary: st es)
  case Nil
  then show ?case by (auto split: if_splits)
next
  case (Cons ev evs)
  show ?case
  proof (cases "running st")
    case False
    with Cons.prems show ?thesis by simp
  next
    case True
    show ?thesis
    proof (cases ev)
      case (Message m)
      with True Cons.prems obtain es' where "receive_loop st evs = Some (st', es')"
        and "es = [Handled m] @ es'"
        by (auto simp: prepend_def)
      with Cons.IH show ?thesis by auto
    next
      case (ReadTimeout ok)
      show ?thesis
      proof (cases ok)
        case True
        with \<open>running st\<close> ReadTimeout Cons.prems
        obtain es' where "receive_loop st evs = Some (st', es')" and "es = [SendPing] @ es'"
          by (auto simp: prepend_def)
        with Cons.IH show ?thesis by auto
      next
        case False
        with \<open>running st\<close> ReadTimeout Cons.prems show ?thesis by auto
      qed
    next
      case ConnectionClosed
      with True Cons.prems show ?thesis by auto
    next
      case ReceiveError
      with True Cons.prems show ?thesis by auto
    next
      case UserDisconnect
      with True Cons.prems obtain es' where
        "receive_loop (fst (disconnect st)) evs = Some (st', es')"
        and "es = snd (disconnect st) @ es'"
        by (auto simp: prepend_def split: prod.splits)
      with Cons.IH disconnect_effects [of st] show ?thesis by auto
    qed
  qed
qed

lemma attempt_no_presence: "attempt st a = Some (st', es) \<Longrightarrow> PresenceOffline \<notin> set es"
proof (cases a)
  case Refused
  assume "attempt st a = Some (st', es)"
  with Refused handle_disconnection_effects(2) [of st] show ?thesis
    by (auto split: prod.splits)
next
  case ConnectFailed
  assume "attempt st a = Some (st', es)"
  with ConnectFailed handle_disconnection_effects(2) [of st] show ?thesis
    by (auto split: prod.splits)
next
  case (Connected au evs)
  assume "attempt st a = Some (st', es)"
  with Connected obtain es' where
    "receive_loop (st\<lparr>ws := True, is_connected := True, reconnect_attempts := 0\<rparr>) evs
       = Some (st', es')"
    and "es = [Log Info, OpenConnection, ConnectionChanged True, Log Info] @ auth_effects au @ es'"
    by (auto simp: prepend_def)
  with receive_loop_no_presence show ?thesis
    by (cases au) auto
qed

lemma loop_result:
  "listener_loop st script = Some (st', es, rest) \<Longrightarrow>
   PresenceOffline \<notin> set es \<and>
   \<not> (running st' \<and> reconnect_attempts st' < max_reconnect_attempts st')"
proof (induction script arbitrary: st es)
  case Nil
  then show ?case by (auto split: if_splits)
next
  case (Cons x xs)
  show ?case
  proof (cases "running st \<and> reconnect_attempts st < max_reconnect_attempts st")
    case False
    with Cons.prems show ?thesis by auto
  next
    case True
    show ?thesis
    proof (cases x)
      case Disconnect
      with True Cons.prems obtain es' where
        "listener_loop (fst (disconnect st)) xs = Some (st', es', rest)"
        and "es = snd (disconnect st) @ es'"
        by (auto simp: prepend3_def split: prod.splits)
      with Cons.IH disconnect_effects [of st] show ?thesis by auto
    next
      case (Attempt a)
      with True Cons.prems obtain st1 es1 es' where
        att: "attempt st a = Some (st1, es1)"
        and "listener_loop st1 xs = Some (st', es', rest)"
        and "es = es1 @ es'"
        by (auto simp: prepend3_def split: option.splits)
      with Cons.IH attempt_no_presence [OF att] show ?thesis by auto
    qed
  qed
qed

text \<open>
  C8, as the claim states it, fails: a session that was active and is stopped by
  \<open>disconnect()\<close> ends the listener without any call of the presence endpoint.
\<close>

theorem explicit_stop_counterexample:
  "websocket_listener (init 7) [Attempt (Connected AuthSent [Message ''hi'', UserDisconnect])]
      (Status 200) \<noteq> None \<and>
   \<not> PresenceOffline \<in> set (fst (snd (the
       (websocket_listener (init 7)
          [Attempt (Connected AuthSent [Message ''hi'', UserDisconnect])] (Status 200)))))"
  by (simp add: websocket_listener_def init_def prepend_def prepend3_def disconnect_def)

text \<open>
  C8, amended. When the listener returns with \<open>running\<close> still set, the reconnect attempts
  are exhausted and its last actions are one call of the presence endpoint followed by a
  log line, whatever the outcome of the request (a status other than 200 and a raised
  exception end in a warning or an error, nothing is raised). When it returns after an
  explicit stop (\<open>running\<close> cleared) it has made no presence call.
\<close>

theorem presence_call_on_exhaustion_only:
  assumes "websocket_listener st script http = Some (st', es, rest)"
  shows "(running st' \<longrightarrow>
            max_reconnect_attempts st' \<le> reconnect_attempts st' \<and>
            (\<exists>es0. es = es0 @ Log Info # mark_user_offline http \<and> PresenceOffline \<notin> set es0) \<and>
            count_list es PresenceOffline = 1 \<and>
            (http \<noteq> Status 200 \<longrightarrow> last es = Log Warning \<or> last es = Log Error)) \<and>
         (\<not> running st' \<longrightarrow> PresenceOffline \<notin> set es)"
proof -
  from assms obtain es0 where
    loop: "listener_loop st script = Some (st', es0, rest)"
    and es: "es = es0 @ (if running st' then Log Info # mark_user_offline http else [])"
    by (auto simp: websocket_listener_def split: option.splits)
  from loop have clean: "PresenceOffline \<notin> set es0"
    and stopped: "\<not> (running st' \<and> reconnect_attempts st' < max_reconnect_attempts st')"
    using loop_result [OF loop] by simp_all
  from clean have zero: "count_list es0 PresenceOffline = 0"
    by (simp add: count_list_0_iff)
  have one: "count_list (mark_user_offline http) PresenceOffline = 1"
    by (cases http) simp_all
  have tail: "last (es0 @ Log Info # mark_user_offline http) = Log Warning \<or>
      last (es0 @ Log Info # mark_user_offline http) = Log Error"
    if "http \<noteq> Status 200"
    using that by (cases http) simp_all
  show ?thesis
  proof (cases "running st'")
    case True
    with es have es': "es = es0 @ Log Info # mark_user_offline http" by simp
    from True stopped have a: "max_reconnect_attempts st' \<le> reconnect_attempts st'" by simp
    from es' clean have b: "\<exists>es0. es = es0 @ Log Info # mark_user_offline http \<and>
        PresenceOffline \<notin> set es0" by blast
    from es' zero one have c: "count_list es PresenceOffline = 1" by simp
    from es' tail have d: "http \<noteq> Status 200 \<longrightarrow> last es = Log Warning \<or> last es = Log Error"
      by blast
    from True a b c d show ?thesis by blast
  next
    case False
    with es clean show ?thesis by simp
  qed
qed

theorem presence_call_on_exhaustion_only_witness:
  "websocket_listener ((init 7)\<lparr>reconnect_attempts := 4\<rparr>) [Attempt Refused] RequestFailed
     = Some ((init 7)\<lparr>reconnect_attempts := 5\<rparr>,
             [Log Info, OpenConnection, Log Error, ConnectionChanged False, Log Error,
              Log Info, PresenceOffline, Log Error], []) \<and>
   running ((init 7)\<lparr>reconnect_attempts := 5\<rparr>) \<and>
   RequestFailed \<noteq> Status 200 \<and>
   websocket_listener (init 7) [Disconnect] RequestFailed
     = Some ((init 7)\<lparr>running := False\<rparr>, [Log Info, ConnectionChanged False], []) \<and>
   \<not> running ((init 7)\<lparr>running := False\<rparr>)"
proof -
  have run1: "websocket_listener ((init 7)\<lparr>reconnect_attempts := 4\<rparr>) [Attempt Refused]
      RequestFailed
     = Some ((init 7)\<lparr>reconnect_attempts := 5\<rparr>,
             [Log Info, OpenConnection, Log Error, ConnectionChanged False, Log Error,
              Log Info, PresenceOffline, Log Error], [])"
    by (simp add: websocket_listener_def init_def handle_disconnection_def prepend3_def)
  have run2: "websocket_listener (init 7) [Disconnect] RequestFailed
     = Some ((init 7)\<lparr>running := False\<rparr>, [Log Info, ConnectionChanged False], [])"
    by (simp add: websocket_listener_def init_def disconnect_def prepend3_def)
  show ?thesis
    using presence_call_on_exhaustion_only [OF run1] presence_call_on_exhaustion_only [OF run2]
      run1 run2
    by (simp add: init_def)
qed

end
